theory Spec2Isabelle
  imports Complex_Main "HOL-Library.Sublist"
begin

section \<open>JavaScript primitives used by the services\<close>

text \<open>
  Numbers are modelled as exact reals (and as integers where the data model says so), so
  \<open>Math.round\<close> is rounding half up on the reals: \<open>Math.round(x) = floor(x + 1/2)\<close>.
  Strings are lists of 8-bit characters; case folding and the character classes
  \<open>\s\<close> and \<open>\d\<close> are modelled on ASCII.
\<close>

definition Math_round :: "real \<Rightarrow> int" where
  "Math_round x = \<lfloor>x + 1 / 2\<rfloor>"

definition lowerChar :: "char \<Rightarrow> char" where
  "lowerChar c =
     (case map_of (zip ''ABCDEFGHIJKLMNOPQRSTUVWXYZ'' ''abcdefghijklmnopqrstuvwxyz'') c of
        Some d \<Rightarrow> d
      | None \<Rightarrow> c)"

definition toLowerCase :: "string \<Rightarrow> string" where
  "toLowerCase s = map lowerChar s"

text \<open>\<open>s.includes(t)\<close>: \<open>t\<close> occurs in \<open>s\<close> as a contiguous substring.\<close>

fun str_includes :: "string \<Rightarrow> string \<Rightarrow> bool" where
  "str_includes [] t = (t = [])"
| "str_includes (c # s) t = (prefix t (c # s) \<or> str_includes s t)"

definition isSpace :: "char \<Rightarrow> bool" where
  "isSpace c = (c \<in> set [CHR '' '', CHR 0x09, CHR 0x0A, CHR 0x0B, CHR 0x0C, CHR 0x0D])"

definition isDigit :: "char \<Rightarrow> bool" where
  "isDigit c = (c \<in> set ''0123456789'')"

text \<open>
  \<open>s.split(/\s+/)\<close>: the pieces between maximal runs of white space; leading or trailing
  white space yields an empty first or last piece, and the empty string yields \<open>[""]\<close>.
  The first argument is the piece being read, reversed.
\<close>

function splitWs :: "string \<Rightarrow> string \<Rightarrow> string list" where
  "splitWs cur [] = [rev cur]"
| "splitWs cur (c # cs) =
     (if isSpace c then rev cur # splitWs [] (dropWhile isSpace cs)
      else splitWs (c # cur) cs)"
  by pat_completeness auto
termination
  by (relation "measure (\<lambda>(cur, s). length s)")
     (auto simp: less_Suc_eq_le length_dropWhile_le)

definition split_whitespace :: "string \<Rightarrow> string list" where
  "split_whitespace s = splitWs [] s"

text \<open>\<open>xs.join(sep)\<close>.\<close>

fun join :: "string \<Rightarrow> string list \<Rightarrow> string" where
  "join sep [] = []"
| "join sep [x] = x"
| "join sep (x # y # ys) = x @ sep @ join sep (y # ys)"

text \<open>Decimal rendering of integers, as template literals render integral numbers.\<close>

definition digitChar :: "nat \<Rightarrow> char" where
  "digitChar n = ''0123456789'' ! (n mod 10)"

function show_nat :: "nat \<Rightarrow> string" where
  "show_nat n = (if n < 10 then [digitChar n] else show_nat (n div 10) @ [digitChar n])"
  by pat_completeness auto
termination
  by (relation "measure id") auto

declare show_nat.simps [simp del]

definition show_int :: "int \<Rightarrow> string" where
  "show_int i = (if i < 0 then CHR ''-'' # show_nat (nat (- i)) else show_nat (nat i))"

text \<open>\<open>x.toFixed(1)\<close> for \<open>x \<ge> 0\<close>: the nearest tenth, ties upward.\<close>

definition toFixed1 :: "real \<Rightarrow> string" where
  "toFixed1 x = (let n = nat \<lfloor>x * 10 + 1 / 2\<rfloor> in show_nat (n div 10) @ ''.'' @ show_nat (n mod 10))"

text \<open>
  \<open>s.match(/(\d+)/)\<close>: the first maximal run of decimal digits, if any;
  \<open>parseInt\<close> of such a run is its decimal value.
\<close>

definition matchDigits :: "string \<Rightarrow> string option" where
  "matchDigits s =
     (let r = dropWhile (\<lambda>c. \<not> isDigit c) s
      in if r = [] then None else Some (takeWhile isDigit r))"

definition digitValue :: "char \<Rightarrow> nat" where
  "digitValue c = length (takeWhile (\<lambda>d. d \<noteq> c) ''0123456789'')"

definition parseDigits :: "string \<Rightarrow> nat" where
  "parseDigits ds = foldl (\<lambda>a c. 10 * a + digitValue c) 0 ds"

text \<open>
  Optional values (\<open>number | null | undefined\<close>, \<open>string | null | undefined\<close>) are
  options: the code never tells \<open>null\<close> from \<open>undefined\<close> in these positions. The
  truthiness tests \<open>!x\<close> and \<open>x || d\<close> also treat \<open>0\<close> and \<open>""\<close> as absent.
\<close>

definition falsyNum :: "real option \<Rightarrow> bool" where
  "falsyNum x = (x = None \<or> x = Some 0)"

definition falsyInt :: "int option \<Rightarrow> bool" where
  "falsyInt x = (x = None \<or> x = Some 0)"

definition falsyStr :: "string option \<Rightarrow> bool" where
  "falsyStr x = (x = None \<or> x = Some [])"

definition strOrEmpty :: "string option \<Rightarrow> string" where
  "strOrEmpty x = (case x of None \<Rightarrow> [] | Some s \<Rightarrow> s)"

definition nullish :: "'a option \<Rightarrow> 'a option \<Rightarrow> 'a option" where
  "nullish x y = (case x of None \<Rightarrow> y | Some v \<Rightarrow> Some v)"

section \<open>Data model of the proposal evaluation service\<close>

record requirement_item =
  ri_name :: string
  ri_quantity :: "int option"
  ri_specifications :: "string option"

record rfp_requirements =
  rr_items :: "requirement_item list option"
  rr_deliveryDays :: "int option"
  rr_paymentTerms :: "string option"
  rr_warranty :: "string option"
  rr_otherRequirements :: "string list option"

record item_price =
  ip_item :: string
  ip_price :: real
  ip_quantity :: "int option"

record proposal_data =
  pd_totalPrice :: "real option"
  pd_itemPrices :: "item_price list option"
  pd_deliveryDays :: "int option"
  pd_paymentTerms :: "string option"
  pd_warranty :: "string option"
  pd_notes :: "string option"
  pd_completeness :: "real option"
  pd_rawEmail :: "string option"

record price_criterion =
  pr_score :: int
  pr_matchesBudget :: bool
  pr_deviation :: real
  pr_reasoning :: string

record delivery_criterion =
  dl_score :: int
  dl_meetsDeadline :: bool
  dl_daysDifference :: "int option"
  dl_reasoning :: string

record item_breakdown =
  ib_itemName :: string
  ib_requiredQuantity :: "int option"
  ib_proposedQuantity :: "int option"
  ib_matchesQuantity :: bool
  ib_specificationsMatch :: bool
  ib_reasoning :: string

record requirements_criterion =
  rq_score :: int
  rq_itemsMatched :: nat
  rq_itemsTotal :: nat
  rq_itemBreakdown :: "item_breakdown list"
  rq_reasoning :: string

record payment_criterion =
  pt_score :: int
  pt_matches :: bool
  pt_reasoning :: string

record warranty_criterion =
  wr_score :: int
  wr_meetsRequirement :: bool
  wr_reasoning :: string

record completeness_criterion =
  cp_score :: int
  cp_reasoning :: string

record other_criterion =
  ot_score :: int
  ot_matches :: nat
  ot_total :: nat
  ot_missing :: "string list"
  ot_reasoning :: string

record evaluation_criteria =
  c_price :: price_criterion
  c_delivery :: delivery_criterion
  c_requirements :: requirements_criterion
  c_paymentTerms :: payment_criterion
  c_warranty :: warranty_criterion
  c_completeness :: completeness_criterion
  c_otherRequirements :: other_criterion

section \<open>Criterion scorers\<close>

subsection \<open>evaluatePrice\<close>

definition evaluatePrice :: "real option \<Rightarrow> real option \<Rightarrow> price_criterion" where
  "evaluatePrice proposalPrice budget =
     (if falsyNum proposalPrice then
        \<lparr>pr_score = 0, pr_matchesBudget = False, pr_deviation = 0,
         pr_reasoning = ''Price not specified in proposal''\<rparr>
      else if falsyNum budget then
        \<lparr>pr_score = 80, pr_matchesBudget = True, pr_deviation = 0,
         pr_reasoning = ''No budget specified in RFP. Price provided.''\<rparr>
      else
        let deviation = ((the proposalPrice - the budget) / the budget) * 100;
            absDeviation = \<bar>deviation\<bar>;
            score =
              (if deviation < 0 then
                 (if absDeviation \<le> 5 then 100
                  else if absDeviation \<le> 10 then 95
                  else if absDeviation \<le> 20 then 85
                  else if absDeviation \<le> 30 then 75
                  else if absDeviation \<le> 50 then 60
                  else max 30 (70 - absDeviation * 0.5))
               else
                 (if absDeviation \<le> 5 then 95
                  else if absDeviation \<le> 10 then 85
                  else if absDeviation \<le> 20 then 70
                  else if absDeviation \<le> 30 then 50
                  else if absDeviation \<le> 50 then 30
                  else max 0 (40 - absDeviation * 0.3)))
        in \<lparr>pr_score = Math_round score,
            pr_matchesBudget = (deviation \<le> 10),
            pr_deviation = real_of_int (Math_round (deviation * 100)) / 100,
            pr_reasoning =
              (if deviation > 0 then ''Price is '' @ toFixed1 \<bar>deviation\<bar> @ ''% over budget''
               else ''Price is '' @ toFixed1 \<bar>deviation\<bar> @ ''% under budget'')\<rparr>)"

subsection \<open>evaluateDelivery\<close>

definition evaluateDelivery :: "int option \<Rightarrow> int option \<Rightarrow> delivery_criterion" where
  "evaluateDelivery proposalDeliveryDays requiredDeliveryDays =
     (if falsyInt proposalDeliveryDays then
        \<lparr>dl_score = 0, dl_meetsDeadline = False, dl_daysDifference = None,
         dl_reasoning = ''Delivery timeline not specified''\<rparr>
      else if falsyInt requiredDeliveryDays then
        \<lparr>dl_score = 80, dl_meetsDeadline = True, dl_daysDifference = None,
         dl_reasoning = ''No delivery requirement specified. Timeline provided.''\<rparr>
      else
        let daysDifference = the proposalDeliveryDays - the requiredDeliveryDays;
            meetsDeadline = (daysDifference \<le> 0);
            score =
              (if daysDifference \<le> 0 then
                 max 90 (min 100 (100 - real_of_int \<bar>daysDifference\<bar> * 2))
               else if daysDifference \<le> 7 then 75
               else if daysDifference \<le> 14 then 60
               else if daysDifference \<le> 30 then 40
               else max 0 (30 - real_of_int daysDifference / 10))
        in \<lparr>dl_score = Math_round score,
            dl_meetsDeadline = meetsDeadline,
            dl_daysDifference = Some daysDifference,
            dl_reasoning =
              (if meetsDeadline then
                 ''Meets deadline'' @
                 (if daysDifference < 0 then '' ('' @ show_int \<bar>daysDifference\<bar> @ '' days early)''
                  else [])
               else ''Exceeds deadline by '' @ show_int daysDifference @ '' days'')\<rparr>)"

subsection \<open>matchItems\<close>

text \<open>
  The searchable proposal text. The source spreads the joined line-item string into the
  array literal, so each of its characters becomes an element of its own before the final
  \<open>join(' ')\<close>; the notes and the raw e-mail are appended whole.
\<close>

definition itemPricesText :: "item_price list option \<Rightarrow> string" where
  "itemPricesText proposalItemPrices =
     (case proposalItemPrices of
        None \<Rightarrow> []
      | Some ips \<Rightarrow>
          join '' ''
            (map (\<lambda>ip. ip_item ip @ '' '' @
                    (if falsyInt (ip_quantity ip) then [] else show_int (the (ip_quantity ip))))
               ips))"

definition matchItemsText :: "item_price list option \<Rightarrow> string option \<Rightarrow> string option \<Rightarrow> string" where
  "matchItemsText proposalItemPrices proposalNotes rawEmail =
     toLowerCase
       (join '' ''
          (map (\<lambda>c. [c]) (itemPricesText proposalItemPrices)
           @ [strOrEmpty proposalNotes, strOrEmpty rawEmail]))"

text \<open>
  One iteration of the loop over the required items: whether the item is counted in
  \<open>itemsMatched\<close>, and the entry pushed on \<open>itemBreakdown\<close>.
\<close>

definition matchItem :: "item_price list option \<Rightarrow> string \<Rightarrow> requirement_item \<Rightarrow> bool \<times> item_breakdown" where
  "matchItem proposalItemPrices proposalText rfpItem =
     (let itemNameLower = toLowerCase (ri_name rfpItem);
          matchingProposalItem =
            (case proposalItemPrices of
               None \<Rightarrow> None
             | Some ips \<Rightarrow>
                 List.find
                   (\<lambda>ip. str_includes (toLowerCase (ip_item ip)) itemNameLower \<or>
                         str_includes itemNameLower (toLowerCase (ip_item ip)))
                   ips);
          proposedQuantity =
            (case matchingProposalItem of None \<Rightarrow> None | Some m \<Rightarrow> ip_quantity m);
          matchesQuantity =
            (case matchingProposalItem of
               Some m \<Rightarrow>
                 (if \<not> falsyInt (ri_quantity rfpItem) then ip_quantity m = ri_quantity rfpItem
                  else True)
             | None \<Rightarrow>
                 (let fuzzyMatch = str_includes proposalText itemNameLower
                  in falsyInt (ri_quantity rfpItem) \<or> fuzzyMatch));
          specificationsMatch =
            (if \<not> falsyStr (ri_specifications rfpItem) then
               list_ex (\<lambda>keyword. str_includes proposalText keyword \<and> length keyword > 3)
                 (split_whitespace (toLowerCase (the (ri_specifications rfpItem))))
             else True);
          itemMatch = (matchingProposalItem \<noteq> None \<or> str_includes proposalText itemNameLower);
          counted =
            (itemMatch \<and> (matchesQuantity \<or> falsyInt (ri_quantity rfpItem))
             \<and> (specificationsMatch \<or> falsyStr (ri_specifications rfpItem)))
      in (counted,
          \<lparr>ib_itemName = ri_name rfpItem,
           ib_requiredQuantity = ri_quantity rfpItem,
           ib_proposedQuantity = proposedQuantity,
           ib_matchesQuantity = matchesQuantity,
           ib_specificationsMatch = specificationsMatch,
           ib_reasoning =
             (if \<not> itemMatch then ''Item not found in proposal''
              else if \<not> matchesQuantity \<and> \<not> falsyInt (ri_quantity rfpItem) then
                ''Quantity mismatch (required: '' @ show_int (the (ri_quantity rfpItem))
                @ '', proposed: ''
                @ (if falsyInt proposedQuantity then ''N/A'' else show_int (the proposedQuantity))
                @ '')''
              else if \<not> specificationsMatch \<and> \<not> falsyStr (ri_specifications rfpItem) then
                ''Specifications may not match''
              else ''Item matches requirements'')\<rparr>))"

text \<open>The \<open>for\<close> loop, carrying \<open>itemsMatched\<close> and \<open>itemBreakdown\<close>.\<close>

fun matchLoop ::
  "item_price list option \<Rightarrow> string \<Rightarrow> requirement_item list \<Rightarrow> nat \<Rightarrow> item_breakdown list
   \<Rightarrow> nat \<times> item_breakdown list" where
  "matchLoop proposalItemPrices proposalText [] itemsMatched itemBreakdown =
     (itemsMatched, itemBreakdown)"
| "matchLoop proposalItemPrices proposalText (rfpItem # rest) itemsMatched itemBreakdown =
     (let r = matchItem proposalItemPrices proposalText rfpItem
      in matchLoop proposalItemPrices proposalText rest
           (if fst r then itemsMatched + 1 else itemsMatched)
           (itemBreakdown @ [snd r]))"

definition matchItems ::
  "requirement_item list \<Rightarrow> item_price list option \<Rightarrow> string option \<Rightarrow> string option
   \<Rightarrow> requirements_criterion" where
  "matchItems rfpItems proposalItemPrices proposalNotes rawEmail =
     (if rfpItems = [] then
        \<lparr>rq_score = 100, rq_itemsMatched = 0, rq_itemsTotal = 0, rq_itemBreakdown = [],
         rq_reasoning = ''No specific items required''\<rparr>
      else
        let proposalText = matchItemsText proposalItemPrices proposalNotes rawEmail;
            r = matchLoop proposalItemPrices proposalText rfpItems 0 [];
            itemsMatched = fst r;
            matchPercentage = (real itemsMatched / real (length rfpItems)) * 100;
            score = Math_round matchPercentage
        in \<lparr>rq_score = score, rq_itemsMatched = itemsMatched,
            rq_itemsTotal = length rfpItems, rq_itemBreakdown = snd r,
            rq_reasoning =
              show_nat itemsMatched @ '' of '' @ show_nat (length rfpItems)
              @ '' required items matched''\<rparr>)"

subsection \<open>evaluatePaymentTerms\<close>

definition paymentKeywords :: "string list" where
  "paymentKeywords =
     [''net'', ''days'', ''30'', ''60'', ''90'', ''advance'', ''upon delivery'', ''installment'']"

definition evaluatePaymentTerms :: "string option \<Rightarrow> string option \<Rightarrow> payment_criterion" where
  "evaluatePaymentTerms proposalTerms requiredTerms =
     (if falsyStr proposalTerms then
        \<lparr>pt_score = 50, pt_matches = False, pt_reasoning = ''Payment terms not specified''\<rparr>
      else if falsyStr requiredTerms then
        \<lparr>pt_score = 80, pt_matches = True,
         pt_reasoning = ''No payment terms requirement. Terms provided.''\<rparr>
      else
        let proposalLower = toLowerCase (the proposalTerms);
            requiredLower = toLowerCase (the requiredTerms);
            proposalKeywords = filter (\<lambda>k. str_includes proposalLower k) paymentKeywords;
            requiredKeywords = filter (\<lambda>k. str_includes requiredLower k) paymentKeywords;
            matches =
              (if length requiredKeywords > 0 then
                 list_ex (\<lambda>k. k \<in> set proposalKeywords) requiredKeywords
               else str_includes proposalLower requiredLower
                    \<or> str_includes requiredLower proposalLower)
        in \<lparr>pt_score = (if matches then 100 else 60), pt_matches = matches,
            pt_reasoning =
              (if matches then ''Payment terms align with requirements''
               else ''Payment terms may not align with requirements'')\<rparr>)"

subsection \<open>evaluateWarranty\<close>

definition evaluateWarranty :: "string option \<Rightarrow> string option \<Rightarrow> warranty_criterion" where
  "evaluateWarranty proposalWarranty requiredWarranty =
     (if falsyStr proposalWarranty then
        \<lparr>wr_score = 50, wr_meetsRequirement = False, wr_reasoning = ''Warranty not specified''\<rparr>
      else if falsyStr requiredWarranty then
        \<lparr>wr_score = 80, wr_meetsRequirement = True,
         wr_reasoning = ''No warranty requirement. Warranty provided.''\<rparr>
      else
        let pw = the proposalWarranty;
            rw = the requiredWarranty;
            proposalMatch = matchDigits pw;
            requiredMatch = matchDigits rw
        in if proposalMatch \<noteq> None \<and> requiredMatch \<noteq> None then
             let proposalValue = parseDigits (the proposalMatch);
                 requiredValue = parseDigits (the requiredMatch);
                 meetsRequirement = (proposalValue \<ge> requiredValue)
             in \<lparr>wr_score = (if meetsRequirement then 100 else 50),
                 wr_meetsRequirement = meetsRequirement,
                 wr_reasoning =
                   (if meetsRequirement then
                      ''Warranty ('' @ pw @ '') meets or exceeds requirement ('' @ rw @ '')''
                    else ''Warranty ('' @ pw @ '') may not meet requirement ('' @ rw @ '')'')\<rparr>
           else
             let matches =
                   (str_includes (toLowerCase pw) (toLowerCase rw)
                    \<or> str_includes (toLowerCase rw) (toLowerCase pw))
             in \<lparr>wr_score = (if matches then 100 else 60),
                 wr_meetsRequirement = matches,
                 wr_reasoning =
                   (if matches then ''Warranty aligns with requirements''
                    else ''Warranty may not align with requirements'')\<rparr>)"

subsection \<open>evaluateCompleteness\<close>

definition evaluateCompleteness :: "real option \<Rightarrow> completeness_criterion" where
  "evaluateCompleteness completeness =
     (case completeness of
        None \<Rightarrow> \<lparr>cp_score = 50, cp_reasoning = ''Completeness score not available''\<rparr>
      | Some c \<Rightarrow>
          let score = Math_round (c * 100)
          in \<lparr>cp_score = score,
              cp_reasoning =
                (if score \<ge> 80 then ''Proposal is comprehensive and complete''
                 else if score \<ge> 60 then
                   ''Proposal is reasonably complete but may lack some details''
                 else ''Proposal is incomplete and may require clarification'')\<rparr>)"

subsection \<open>evaluateOtherRequirements\<close>

fun otherLoop :: "string \<Rightarrow> string list \<Rightarrow> nat \<Rightarrow> string list \<Rightarrow> nat \<times> string list" where
  "otherLoop proposalText [] matches missing = (matches, missing)"
| "otherLoop proposalText (requirement # rest) matches missing =
     (let keywords = filter (\<lambda>w. length w > 3) (split_whitespace (toLowerCase requirement));
          match' = list_ex (\<lambda>keyword. str_includes proposalText keyword) keywords
      in if match' then otherLoop proposalText rest (matches + 1) missing
         else otherLoop proposalText rest matches (missing @ [requirement]))"

definition evaluateOtherRequirements ::
  "string option \<Rightarrow> string option \<Rightarrow> string list option \<Rightarrow> other_criterion" where
  "evaluateOtherRequirements proposalNotes rawEmail otherRequirements =
     (if otherRequirements = None \<or> otherRequirements = Some [] then
        \<lparr>ot_score = 100, ot_matches = 0, ot_total = 0, ot_missing = [],
         ot_reasoning = ''No other requirements specified''\<rparr>
      else
        let reqs = the otherRequirements;
            proposalText =
              toLowerCase (join '' '' [strOrEmpty proposalNotes, strOrEmpty rawEmail]);
            r = otherLoop proposalText reqs 0 [];
            matches = fst r;
            matchPercentage = (real matches / real (length reqs)) * 100;
            score = Math_round matchPercentage
        in \<lparr>ot_score = score, ot_matches = matches, ot_total = length reqs,
            ot_missing = snd r,
            ot_reasoning =
              show_nat matches @ '' of '' @ show_nat (length reqs)
              @ '' other requirements addressed''\<rparr>)"

section \<open>The proposal evaluator\<close>

subsection \<open>calculateOverallScore\<close>

record criterion_weights =
  w_price :: real
  w_delivery :: real
  w_requirements :: real
  w_paymentTerms :: real
  w_warranty :: real
  w_completeness :: real
  w_otherRequirements :: real

definition weights :: criterion_weights where
  "weights =
     \<lparr>w_price = 0.25, w_delivery = 0.20, w_requirements = 0.30, w_paymentTerms = 0.05,
      w_warranty = 0.10, w_completeness = 0.05, w_otherRequirements = 0.05\<rparr>"

definition weightedSum :: "evaluation_criteria \<Rightarrow> real" where
  "weightedSum criteria =
     real_of_int (pr_score (c_price criteria)) * w_price weights +
     real_of_int (dl_score (c_delivery criteria)) * w_delivery weights +
     real_of_int (rq_score (c_requirements criteria)) * w_requirements weights +
     real_of_int (pt_score (c_paymentTerms criteria)) * w_paymentTerms weights +
     real_of_int (wr_score (c_warranty criteria)) * w_warranty weights +
     real_of_int (cp_score (c_completeness criteria)) * w_completeness weights +
     real_of_int (ot_score (c_otherRequirements criteria)) * w_otherRequirements weights"

definition calculateOverallScore :: "evaluation_criteria \<Rightarrow> int" where
  "calculateOverallScore criteria = Math_round (weightedSum criteria)"

subsection \<open>evaluateProposal\<close>

text \<open>
  The proposal as the evaluator reads it: the top-level fields and the embedded
  \<open>parsedData\<close> blob, which carries the same fields and the line items. The feedback
  lists (strengths, weaknesses, concerns) are derived from the criteria afterwards and do
  not enter any score; they are left out of the evaluation record.
\<close>

record proposal =
  p_vendorId :: string
  p_vendorName :: string
  p_totalPrice :: "real option"
  p_deliveryDays :: "int option"
  p_paymentTerms :: "string option"
  p_warranty :: "string option"
  p_notes :: "string option"
  p_completeness :: "real option"
  p_rawEmail :: "string option"
  p_parsedData :: "proposal_data option"

record rfp =
  rfp_budget :: "real option"
  rfp_requirements :: rfp_requirements

record proposal_evaluation =
  ev_vendorId :: string
  ev_vendorName :: string
  ev_overallScore :: int
  ev_criteria :: evaluation_criteria

definition emptyParsedData :: proposal_data where
  "emptyParsedData =
     \<lparr>pd_totalPrice = None, pd_itemPrices = None, pd_deliveryDays = None,
      pd_paymentTerms = None, pd_warranty = None, pd_notes = None, pd_completeness = None,
      pd_rawEmail = None\<rparr>"

text \<open>The local \<open>proposalData\<close>: each field from the top level, else from \<open>parsedData\<close>.\<close>

definition proposalData :: "proposal \<Rightarrow> proposal_data" where
  "proposalData proposal =
     (let parsedData = (case p_parsedData proposal of None \<Rightarrow> emptyParsedData | Some d \<Rightarrow> d)
      in \<lparr>pd_totalPrice = nullish (p_totalPrice proposal) (pd_totalPrice parsedData),
          pd_itemPrices = pd_itemPrices parsedData,
          pd_deliveryDays = nullish (p_deliveryDays proposal) (pd_deliveryDays parsedData),
          pd_paymentTerms = nullish (p_paymentTerms proposal) (pd_paymentTerms parsedData),
          pd_warranty = nullish (p_warranty proposal) (pd_warranty parsedData),
          pd_notes = nullish (p_notes proposal) (pd_notes parsedData),
          pd_completeness = nullish (p_completeness proposal) (pd_completeness parsedData),
          pd_rawEmail = p_rawEmail proposal\<rparr>)"

definition evaluateCriteria :: "proposal \<Rightarrow> rfp \<Rightarrow> evaluation_criteria" where
  "evaluateCriteria proposal r =
     (let d = proposalData proposal; req = rfp_requirements r
      in \<lparr>c_price = evaluatePrice (pd_totalPrice d) (rfp_budget r),
          c_delivery =
            evaluateDelivery (pd_deliveryDays d)
              (if falsyInt (rr_deliveryDays req) then None else rr_deliveryDays req),
          c_requirements =
            matchItems (case rr_items req of None \<Rightarrow> [] | Some xs \<Rightarrow> xs)
              (pd_itemPrices d) (pd_notes d) (pd_rawEmail d),
          c_paymentTerms =
            evaluatePaymentTerms (pd_paymentTerms d)
              (if falsyStr (rr_paymentTerms req) then None else rr_paymentTerms req),
          c_warranty =
            evaluateWarranty (pd_warranty d)
              (if falsyStr (rr_warranty req) then None else rr_warranty req),
          c_completeness = evaluateCompleteness (pd_completeness d),
          c_otherRequirements =
            evaluateOtherRequirements (pd_notes d) (pd_rawEmail d) (rr_otherRequirements req)\<rparr>)"

definition evaluateProposal :: "proposal \<Rightarrow> rfp \<Rightarrow> proposal_evaluation" where
  "evaluateProposal proposal r =
     (let criteria = evaluateCriteria proposal r;
          overallScore = calculateOverallScore criteria
      in \<lparr>ev_vendorId = p_vendorId proposal, ev_vendorName = p_vendorName proposal,
          ev_overallScore = overallScore, ev_criteria = criteria\<rparr>)"

section \<open>The comparison cache check of the compare route\<close>

text \<open>
  Time stamps are instants in milliseconds. A proposal row may lack \<open>updatedAt\<close>; the
  cached comparison may lack its \<open>evaluations\<close> array, which then counts as length 0.
\<close>

record proposal_row =
  row_updatedAt :: "int option"

record 'e comparison_result =
  cmp_evaluations :: "'e list option"

text \<open>The reducer that finds the latest proposal update.\<close>

definition latestStep :: "int option \<Rightarrow> proposal_row \<Rightarrow> int option" where
  "latestStep latest proposal =
     (let proposalUpdate = row_updatedAt proposal
      in case latest of
           None \<Rightarrow> proposalUpdate
         | Some l \<Rightarrow>
             (case proposalUpdate of
                None \<Rightarrow> latest
              | Some u \<Rightarrow> (if u > l then proposalUpdate else latest)))"

definition lastProposalUpdate :: "proposal_row list \<Rightarrow> int option" where
  "lastProposalUpdate proposals = foldl latestStep None proposals"

definition cacheIsValid :: "'e comparison_result \<Rightarrow> int \<Rightarrow> proposal_row list \<Rightarrow> bool" where
  "cacheIsValid cachedComparison cacheUpdate proposals =
     (let cachedProposalCount =
            (case cmp_evaluations cachedComparison of None \<Rightarrow> 0 | Some es \<Rightarrow> length es);
          currentProposalCount = length proposals;
          proposalCountMatches = (cachedProposalCount = currentProposalCount);
          cacheIsNewer =
            (case lastProposalUpdate proposals of None \<Rightarrow> True | Some l \<Rightarrow> cacheUpdate \<ge> l)
      in proposalCountMatches \<and> cacheIsNewer)"

text \<open>
  The route's decision: the cached comparison is served only when no refresh is asked
  for, cache and cache time stamp are both present, and the cache is valid.
\<close>

definition useCachedComparison ::
  "bool \<Rightarrow> 'e comparison_result option \<Rightarrow> int option \<Rightarrow> proposal_row list \<Rightarrow> bool" where
  "useCachedComparison refresh comparisonCache comparisonCacheUpdatedAt proposals =
     (case (comparisonCache, comparisonCacheUpdatedAt) of
        (Some c, Some t) \<Rightarrow> \<not> refresh \<and> cacheIsValid c t proposals
      | _ \<Rightarrow> False)"

section \<open>Example inputs\<close>

text \<open>
  A proposal and an RFP in the shape of the service's inputs: budget 10000, one required
  item (20 laptops), a proposal priced at 9000 with a matching line item, no delivery
  estimate and no delivery requirement.
\<close>

definition exampleProposal :: proposal where
  "exampleProposal =
     \<lparr>p_vendorId = ''v1'', p_vendorName = ''Acme'', p_totalPrice = Some 9000,
      p_deliveryDays = None, p_paymentTerms = None, p_warranty = None,
      p_notes = Some ''We can supply laptop computers'', p_completeness = Some 0.9,
      p_rawEmail = None,
      p_parsedData =
        Some (emptyParsedData
               \<lparr>pd_itemPrices :=
                  Some [\<lparr>ip_item = ''Laptop'', ip_price = 9000, ip_quantity = Some 20\<rparr>]\<rparr>)\<rparr>"

definition exampleRfp :: rfp where
  "exampleRfp =
     \<lparr>rfp_budget = Some 10000,
      rfp_requirements =
        \<lparr>rr_items =
           Some [\<lparr>ri_name = ''Laptop'', ri_quantity = Some 20, ri_specifications = None\<rparr>],
         rr_deliveryDays = None, rr_paymentTerms = None, rr_warranty = None,
         rr_otherRequirements = None\<rparr>\<rparr>"

definition laptopItem :: requirement_item where
  "laptopItem = \<lparr>ri_name = ''Laptop'', ri_quantity = Some 20, ri_specifications = None\<rparr>"


section \<open>JavaScript values and the store\<close>

text \<open>
  \<open>normalizeRfpDraft\<close> takes and returns untyped values (\<open>any\<close>) and writes to objects
  it shares with its arguments, so its model runs on an explicit store. A value is a
  primitive or a reference; a store cell is an object (a finite map from property names to
  values; the order of keys is not observed by the code) or an array (its elements, and
  the named properties an assignment may add to it). References are indices into the
  store, and allocation appends a cell. Numbers are exact reals, NaN, or an infinity.
\<close>

datatype jsnum = Num real | NaN | Infinity bool

datatype jsval = JUndefined | JNull | JBool bool | JNumber jsnum | JStr string | JRef nat

type_synonym props = "string \<rightharpoonup> jsval"

datatype cell = Obj props | Arr "jsval list" props

type_synonym heap = "cell list"

datatype js_error = TypeError | SyntaxError

text \<open>A JSON text's value, before it is allocated in the store.\<close>

datatype json = JsonNull | JsonBool bool | JsonNum real | JsonStr string
  | JsonArr "json list" | JsonObj "(string \<times> json) list"

text \<open>
  The built-in functions the code calls are parameters of the model: \<open>JSON.parse\<close>
  (\<open>None\<close> when it throws), \<open>parseInt\<close>, \<open>parseFloat\<close>, and whether \<open>ToNumber\<close> of
  a string or of an object is NaN (the part of \<open>isNaN\<close> that is not decided by the
  value's tag).
\<close>

record builtins =
  JSON_parse :: "string \<Rightarrow> json option"
  parseInt :: "string \<Rightarrow> jsnum"
  parseFloat :: "string \<Rightarrow> jsnum"
  toNumberIsNaN :: "heap \<Rightarrow> jsval \<Rightarrow> bool"

subsection \<open>Allocation\<close>

definition alloc :: "heap \<Rightarrow> cell \<Rightarrow> nat \<times> heap" where
  "alloc h c = (length h, h @ [c])"

text \<open>
  The value \<open>JSON.parse\<close> returns is built from fresh cells; of a repeated key the last
  occurrence wins.
\<close>

fun alloc_json :: "json \<Rightarrow> heap \<Rightarrow> jsval \<times> heap"
  and alloc_jsons :: "json list \<Rightarrow> heap \<Rightarrow> jsval list \<times> heap"
  and alloc_members :: "(string \<times> json) list \<Rightarrow> heap \<Rightarrow> props \<times> heap" where
  "alloc_json JsonNull h = (JNull, h)"
| "alloc_json (JsonBool b) h = (JBool b, h)"
| "alloc_json (JsonNum x) h = (JNumber (Num x), h)"
| "alloc_json (JsonStr s) h = (JStr s, h)"
| "alloc_json (JsonArr xs) h =
     (case alloc_jsons xs h of (vs, h') \<Rightarrow> (JRef (length h'), h' @ [Arr vs Map.empty]))"
| "alloc_json (JsonObj ms) h =
     (case alloc_members ms h of (m, h') \<Rightarrow> (JRef (length h'), h' @ [Obj m]))"
| "alloc_jsons [] h = ([], h)"
| "alloc_jsons (x # xs) h =
     (case alloc_json x h of (v, h1) \<Rightarrow>
        (case alloc_jsons xs h1 of (vs, h2) \<Rightarrow> (v # vs, h2)))"
| "alloc_members [] h = (Map.empty, h)"
| "alloc_members (kx # ms) h =
     (case alloc_json (snd kx) h of (v, h1) \<Rightarrow>
        (case alloc_members ms h1 of (m, h2) \<Rightarrow> ([fst kx \<mapsto> v] ++ m, h2)))"

subsection \<open>Reading and writing properties\<close>

text \<open>
  In a well-formed store every reference is allocated; an unallocated address reads as an
  empty object.
\<close>

definition cellAt :: "heap \<Rightarrow> nat \<Rightarrow> cell" where
  "cellAt h a = (if a < length h then h ! a else Obj Map.empty)"

definition truthy :: "jsval \<Rightarrow> bool" where
  "truthy v =
     (case v of
        JUndefined \<Rightarrow> False
      | JNull \<Rightarrow> False
      | JBool b \<Rightarrow> b
      | JNumber n \<Rightarrow> (case n of Num x \<Rightarrow> x \<noteq> 0 | NaN \<Rightarrow> False | Infinity s \<Rightarrow> True)
      | JStr s \<Rightarrow> s \<noteq> []
      | JRef a \<Rightarrow> True)"

definition typeofString :: "jsval \<Rightarrow> bool" where
  "typeofString v = (case v of JStr s \<Rightarrow> True | _ \<Rightarrow> False)"

definition stringOf :: "jsval \<Rightarrow> string" where
  "stringOf v = (case v of JStr s \<Rightarrow> s | _ \<Rightarrow> [])"

definition isArray :: "heap \<Rightarrow> jsval \<Rightarrow> bool" where
  "isArray h v =
     (case v of JRef a \<Rightarrow> (case cellAt h a of Arr es ps \<Rightarrow> True | Obj m \<Rightarrow> False) | _ \<Rightarrow> False)"

text \<open>The index properties \<open>"0"\<close>, \<open>"1"\<close>, ... of an array or of a string.\<close>

definition indexProps :: "jsval list \<Rightarrow> props" where
  "indexProps es = map_of (zip (map show_nat [0..<length es]) es)"

text \<open>
  The own enumerable properties an object spread \<open>{...v}\<close> copies: those of an object,
  the elements and named properties of an array, the characters of a string, and none of
  any other primitive.
\<close>

definition ownEntries :: "heap \<Rightarrow> jsval \<Rightarrow> props" where
  "ownEntries h v =
     (case v of
        JRef a \<Rightarrow> (case cellAt h a of Obj m \<Rightarrow> m | Arr es ps \<Rightarrow> indexProps es ++ ps)
      | JStr s \<Rightarrow> indexProps (map (\<lambda>c. JStr [c]) s)
      | _ \<Rightarrow> Map.empty)"

text \<open>
  \<open>v.k\<close> for a value that is neither \<open>undefined\<close> nor \<open>null\<close>, and for the property
  names the code reads (\<open>requirements\<close>, \<open>items\<close>, \<open>deliveryRequirements\<close>,
  \<open>deliveryDays\<close>, \<open>budget\<close>, \<open>deadline\<close>, \<open>name\<close>): none of them is an array
  index, \<open>length\<close>, or a property that primitives inherit.
\<close>

definition getProp :: "heap \<Rightarrow> jsval \<Rightarrow> string \<Rightarrow> jsval" where
  "getProp h v k =
     (case v of
        JRef a \<Rightarrow>
          (case cellAt h a of
             Obj m \<Rightarrow> (case m k of None \<Rightarrow> JUndefined | Some x \<Rightarrow> x)
           | Arr es ps \<Rightarrow> (case ps k of None \<Rightarrow> JUndefined | Some x \<Rightarrow> x))
      | _ \<Rightarrow> JUndefined)"

text \<open>\<open>v?.k\<close>.\<close>

definition optChain :: "heap \<Rightarrow> jsval \<Rightarrow> string \<Rightarrow> jsval" where
  "optChain h v k = (if v = JUndefined \<or> v = JNull then JUndefined else getProp h v k)"

text \<open>\<open>o.k = x\<close> and \<open>delete o.k\<close> on the object or array at an address.\<close>

definition setOwn :: "heap \<Rightarrow> nat \<Rightarrow> string \<Rightarrow> jsval \<Rightarrow> heap" where
  "setOwn h a k x =
     h[a := (case cellAt h a of Obj m \<Rightarrow> Obj (m(k \<mapsto> x)) | Arr es ps \<Rightarrow> Arr es (ps(k \<mapsto> x)))]"

definition deleteOwn :: "heap \<Rightarrow> nat \<Rightarrow> string \<Rightarrow> heap" where
  "deleteOwn h a k =
     h[a := (case cellAt h a of Obj m \<Rightarrow> Obj (m(k := None)) | Arr es ps \<Rightarrow> Arr es (ps(k := None)))]"

text \<open>
  \<open>v.k = x\<close> for an arbitrary value: the module is strict-mode code, so assigning a
  property of a primitive throws a TypeError.
\<close>

definition setProp :: "heap \<Rightarrow> jsval \<Rightarrow> string \<Rightarrow> jsval \<Rightarrow> js_error + heap" where
  "setProp h v k x = (case v of JRef a \<Rightarrow> Inr (setOwn h a k x) | _ \<Rightarrow> Inl TypeError)"

text \<open>
  The elements an array spread \<open>[...v]\<close> contributes: those of an array, the characters
  of a string; any other value is not iterable.
\<close>

definition iterate :: "heap \<Rightarrow> jsval \<Rightarrow> js_error + jsval list" where
  "iterate h v =
     (case v of
        JRef a \<Rightarrow> (case cellAt h a of Arr es ps \<Rightarrow> Inr es | Obj m \<Rightarrow> Inl TypeError)
      | JStr s \<Rightarrow> Inr (map (\<lambda>c. JStr [c]) s)
      | _ \<Rightarrow> Inl TypeError)"

text \<open>\<open>a === b\<close>: references are equal when they are the same address; NaN equals nothing.\<close>

definition strictEq :: "jsval \<Rightarrow> jsval \<Rightarrow> bool" where
  "strictEq a b = (a = b \<and> a \<noteq> JNumber NaN)"

definition js_isNaN :: "builtins \<Rightarrow> heap \<Rightarrow> jsval \<Rightarrow> bool" where
  "js_isNaN env h v =
     (case v of
        JNumber n \<Rightarrow> n = NaN
      | JUndefined \<Rightarrow> True
      | JNull \<Rightarrow> False
      | JBool b \<Rightarrow> False
      | _ \<Rightarrow> toNumberIsNaN env h v)"

section \<open>normalizeRfpDraft\<close>

subsection \<open>The existing draft\<close>

text \<open>
  \<open>normalizedExistingRfpDraft = { ...existingDraft }\<close>, then a \<open>requirements\<close> string is
  replaced by its parsed value, or deleted when it does not parse. Returns the address of
  the copy.
\<close>

definition normalizeExisting :: "builtins \<Rightarrow> heap \<Rightarrow> jsval \<Rightarrow> nat \<times> heap" where
  "normalizeExisting env h existingDraft =
     (case alloc h (Obj (ownEntries h existingDraft)) of
        (ne, h1) \<Rightarrow>
          (let req = getProp h1 (JRef ne) ''requirements''
           in if truthy req \<and> typeofString req then
                (case JSON_parse env (stringOf req) of
                   Some t \<Rightarrow>
                     (case alloc_json t h1 of (v, h2) \<Rightarrow> (ne, setOwn h2 ne ''requirements'' v))
                 | None \<Rightarrow> (ne, deleteOwn h1 ne ''requirements''))
              else (ne, h1)))"

subsection \<open>The update: legacy shapes\<close>

text \<open>\<open>if (!update.requirements) update.requirements = {}\<close>, for the copy at \<open>u\<close>.\<close>

definition ensureRequirements :: "heap \<Rightarrow> nat \<Rightarrow> heap" where
  "ensureRequirements h u =
     (if \<not> truthy (getProp h (JRef u) ''requirements'') then
        (case alloc h (Obj Map.empty) of (r, h1) \<Rightarrow> setOwn h1 u ''requirements'' (JRef r))
      else h)"

text \<open>
  The \<open>try\<close> block \<open>update.requirements.items = JSON.parse(update.items)\<close> and its
  \<open>catch\<close> block \<open>update.requirements.items = [{ name: update.items }]\<close>. The
  \<open>catch\<close> also catches the TypeError of the assignment itself.
\<close>

definition parseItemsInto :: "builtins \<Rightarrow> heap \<Rightarrow> jsval \<Rightarrow> string \<Rightarrow> js_error + heap" where
  "parseItemsInto env h req s =
     (case JSON_parse env s of
        None \<Rightarrow> Inl SyntaxError
      | Some t \<Rightarrow> (case alloc_json t h of (v, h1) \<Rightarrow> setProp h1 req ''items'' v))"

definition syntheticItemInto :: "heap \<Rightarrow> jsval \<Rightarrow> string \<Rightarrow> js_error + heap" where
  "syntheticItemInto h req s =
     (case alloc h (Obj [''name'' \<mapsto> JStr s]) of
        (a, h1) \<Rightarrow>
          (case alloc h1 (Arr [JRef a] Map.empty) of
             (b, h2) \<Rightarrow> setProp h2 req ''items'' (JRef b)))"

definition moveItems :: "builtins \<Rightarrow> heap \<Rightarrow> nat \<Rightarrow> js_error + heap" where
  "moveItems env h u =
     (let items = getProp h (JRef u) ''items''
      in if truthy items \<and> \<not> truthy (optChain h (getProp h (JRef u) ''requirements'') ''items'')
         then
           (let h1 = ensureRequirements h u;
                req = getProp h1 (JRef u) ''requirements'';
                r = (if typeofString items then
                       (case parseItemsInto env h1 req (stringOf items) of
                          Inr h2 \<Rightarrow> Inr h2
                        | Inl e \<Rightarrow> syntheticItemInto h1 req (stringOf items))
                     else if isArray h1 items then setProp h1 req ''items'' items
                     else Inr h1)
            in case r of Inl e \<Rightarrow> Inl e | Inr h3 \<Rightarrow> Inr (deleteOwn h3 u ''items''))
         else Inr h)"

definition moveDeliveryRequirements :: "builtins \<Rightarrow> heap \<Rightarrow> nat \<Rightarrow> js_error + heap" where
  "moveDeliveryRequirements env h u =
     (let dr = getProp h (JRef u) ''deliveryRequirements''
      in if truthy dr
            \<and> \<not> truthy (optChain h (getProp h (JRef u) ''requirements'') ''deliveryDays'')
         then
           (let h1 = ensureRequirements h u;
                req = getProp h1 (JRef u) ''requirements'';
                deliveryDays =
                  (if typeofString dr then JNumber (parseInt env (stringOf dr)) else dr);
                r = (if \<not> js_isNaN env h1 deliveryDays then
                       setProp h1 req ''deliveryDays'' deliveryDays
                     else Inr h1)
            in case r of Inl e \<Rightarrow> Inl e | Inr h3 \<Rightarrow> Inr (deleteOwn h3 u ''deliveryRequirements''))
         else Inr h)"

subsection \<open>The update: budget and deadline\<close>

definition normalizeBudget :: "builtins \<Rightarrow> heap \<Rightarrow> nat \<Rightarrow> heap" where
  "normalizeBudget env h u =
     (let budget = getProp h (JRef u) ''budget''
      in if budget = JStr [] \<or> budget = JNull then deleteOwn h u ''budget''
         else if typeofString budget then
           (let budgetNum = parseFloat env (stringOf budget)
            in setOwn h u ''budget'' (if budgetNum = NaN then JUndefined else JNumber budgetNum))
         else h)"

definition normalizeDeadline :: "heap \<Rightarrow> nat \<Rightarrow> heap" where
  "normalizeDeadline h u =
     (let deadline = getProp h (JRef u) ''deadline''
      in if deadline = JStr [] \<or> deadline = JNull then deleteOwn h u ''deadline'' else h)"

subsection \<open>The merge\<close>


text \<open>
  \<open>i.name\<close> for an array element: reading a property of \<open>undefined\<close> or \<open>null\<close>
  throws.
\<close>

definition nameOf :: "heap \<Rightarrow> jsval \<Rightarrow> js_error + jsval" where
  "nameOf h i = (if i = JUndefined \<or> i = JNull then Inl TypeError else Inr (getProp h i ''name''))"

text \<open>The callback \<open>(i) => i.name === item.name\<close>.\<close>

definition sameName :: "heap \<Rightarrow> jsval \<Rightarrow> jsval \<Rightarrow> js_error + bool" where
  "sameName h item i =
     (case nameOf h i of
        Inl e \<Rightarrow> Inl e
      | Inr ni \<Rightarrow> (case nameOf h item of Inl e \<Rightarrow> Inl e | Inr nt \<Rightarrow> Inr (strictEq ni nt)))"

text \<open>\<open>self.findIndex(p)\<close>, scanning from index \<open>k\<close>; \<open>-1\<close> when nothing matches.\<close>

fun findIndex :: "(jsval \<Rightarrow> js_error + bool) \<Rightarrow> jsval list \<Rightarrow> nat \<Rightarrow> js_error + int" where
  "findIndex p [] k = Inr (- 1)"
| "findIndex p (x # xs) k =
     (case p x of
        Inl e \<Rightarrow> Inl e
      | Inr b \<Rightarrow> (if b then Inr (int k) else findIndex p xs (Suc k)))"

text \<open>
  \<open>self.filter((item, index, self) => index === self.findIndex(...))\<close>, for the items
  from index \<open>k\<close> on.
\<close>

fun filterFirst :: "heap \<Rightarrow> jsval list \<Rightarrow> jsval list \<Rightarrow> nat \<Rightarrow> js_error + jsval list" where
  "filterFirst h self [] k = Inr []"
| "filterFirst h self (item # rest) k =
     (case findIndex (sameName h item) self 0 of
        Inl e \<Rightarrow> Inl e
      | Inr j \<Rightarrow>
          (case filterFirst h self rest (Suc k) of
             Inl e \<Rightarrow> Inl e
           | Inr ys \<Rightarrow> Inr (if int k = j then item # ys else ys)))"

definition dedupItems :: "heap \<Rightarrow> jsval list \<Rightarrow> js_error + jsval list" where
  "dedupItems h self = filterFirst h self self 0"

text \<open>\<open>[...(v?.items || [])]\<close>.\<close>

definition itemsOrEmpty :: "heap \<Rightarrow> jsval \<Rightarrow> js_error + jsval list" where
  "itemsOrEmpty h v =
     (let items = optChain h v ''items'' in if truthy items then iterate h items else Inr [])"

text \<open>
  The value of the merged \<open>requirements\<close> key: a new object spreading both requirement
  values, with a new, deduplicated \<open>items\<close> array; \<open>undefined\<close> when neither side has a
  truthy \<open>requirements\<close>.
\<close>

definition mergeRequirements :: "heap \<Rightarrow> jsval \<Rightarrow> jsval \<Rightarrow> js_error + jsval \<times> heap" where
  "mergeRequirements h er ur =
     (if truthy ur \<or> truthy er then
        (case itemsOrEmpty h er of
           Inl e \<Rightarrow> Inl e
         | Inr xs \<Rightarrow>
             (case itemsOrEmpty h ur of
                Inl e \<Rightarrow> Inl e
              | Inr ys \<Rightarrow>
                  (case dedupItems h (xs @ ys) of
                     Inl e \<Rightarrow> Inl e
                   | Inr zs \<Rightarrow>
                       (case alloc h (Arr zs Map.empty) of
                          (i, h1) \<Rightarrow>
                            (case alloc h1
                                    (Obj ((ownEntries h (if truthy er then er else JUndefined)
                                           ++ ownEntries h (if truthy ur then ur else JUndefined))
                                          (''items'' \<mapsto> JRef i))) of
                               (r, h2) \<Rightarrow> Inr (JRef r, h2))))))
      else Inr (JUndefined, h))"

definition mergeDrafts :: "heap \<Rightarrow> nat \<Rightarrow> nat \<Rightarrow> js_error + jsval \<times> heap" where
  "mergeDrafts h ne u =
     (case mergeRequirements h (getProp h (JRef ne) ''requirements'')
             (getProp h (JRef u) ''requirements'') of
        Inl e \<Rightarrow> Inl e
      | Inr (rv, h1) \<Rightarrow>
          (case alloc h1
                  (Obj ((ownEntries h (JRef ne) ++ ownEntries h (JRef u))
                        (''requirements'' \<mapsto> rv))) of
             (m, h2) \<Rightarrow> Inr (JRef m, h2)))"

subsection \<open>The function\<close>

definition normalizeUpdate :: "builtins \<Rightarrow> heap \<Rightarrow> jsval \<Rightarrow> js_error + nat \<times> heap" where
  "normalizeUpdate env h draftUpdate =
     (case alloc h (Obj (ownEntries h draftUpdate)) of
        (u, h1) \<Rightarrow>
          (case moveItems env h1 u of
             Inl e \<Rightarrow> Inl e
           | Inr h2 \<Rightarrow>
               (case moveDeliveryRequirements env h2 u of
                  Inl e \<Rightarrow> Inl e
                | Inr h3 \<Rightarrow> Inr (u, normalizeDeadline (normalizeBudget env h3 u) u))))"

definition normalizeRfpDraft ::
  "builtins \<Rightarrow> heap \<Rightarrow> jsval \<Rightarrow> jsval \<Rightarrow> js_error + jsval \<times> heap" where
  "normalizeRfpDraft env h existingDraft draftUpdate =
     (case normalizeExisting env h existingDraft of
        (ne, h1) \<Rightarrow>
          (if \<not> truthy draftUpdate then Inr (JRef ne, h1)
           else
             (case normalizeUpdate env h1 draftUpdate of
                Inl e \<Rightarrow> Inl e
              | Inr (u, h2) \<Rightarrow> mergeDrafts h2 ne u)))"

section \<open>Structural comparison of stored values\<close>

text \<open>
  The value a reference denotes, unfolded to a given depth: two values are structurally
  equal when their unfoldings agree at every depth.
\<close>

datatype tree = TUndefined | TNull | TBool bool | TNumber jsnum | TStr string
  | TArr "tree list" "string \<rightharpoonup> tree" | TObj "string \<rightharpoonup> tree" | TCut

primrec tree_of :: "nat \<Rightarrow> heap \<Rightarrow> jsval \<Rightarrow> tree" where
  "tree_of 0 h v =
     (case v of JUndefined \<Rightarrow> TUndefined | JNull \<Rightarrow> TNull | JBool b \<Rightarrow> TBool b
      | JNumber n \<Rightarrow> TNumber n | JStr s \<Rightarrow> TStr s | JRef a \<Rightarrow> TCut)"
| "tree_of (Suc n) h v =
     (case v of JUndefined \<Rightarrow> TUndefined | JNull \<Rightarrow> TNull | JBool b \<Rightarrow> TBool b
      | JNumber n \<Rightarrow> TNumber n | JStr s \<Rightarrow> TStr s
      | JRef a \<Rightarrow>
          (case cellAt h a of
             Obj m \<Rightarrow> TObj (map_option (tree_of n h) \<circ> m)
           | Arr es ps \<Rightarrow> TArr (map (tree_of n h) es) (map_option (tree_of n h) \<circ> ps)))"

text \<open>A store is closed when every reference held in it is allocated.\<close>

definition validIn :: "heap \<Rightarrow> jsval \<Rightarrow> bool" where
  "validIn h v = (case v of JRef a \<Rightarrow> a < length h | _ \<Rightarrow> True)"

definition cellClosed :: "heap \<Rightarrow> cell \<Rightarrow> bool" where
  "cellClosed h c =
     (case c of
        Obj m \<Rightarrow> (\<forall>v \<in> ran m. validIn h v)
      | Arr es ps \<Rightarrow> (\<forall>v \<in> set es. validIn h v) \<and> (\<forall>v \<in> ran ps. validIn h v))"

definition closedStore :: "heap \<Rightarrow> bool" where
  "closedStore h = (\<forall>c \<in> set h. cellClosed h c)"

section \<open>Reference built-ins for running examples\<close>

text \<open>
  Decimal \<open>parseFloat\<close> (white space, sign, digits, fraction, exponent, \<open>Infinity\<close>) and
  \<open>parseInt\<close> without radix (white space, sign, \<open>0x\<close> prefix, digits), on exact reals.
  The examples pass no JSON text and no object where a number is expected, so the other
  two built-ins are never consulted there; the instance fixes them to "does not parse"
  and "is NaN".
\<close>

definition takeSign :: "string \<Rightarrow> bool \<times> string" where
  "takeSign s =
     (case s of
        [] \<Rightarrow> (False, [])
      | c # r \<Rightarrow>
          if c = CHR ''-'' then (True, r) else if c = CHR ''+'' then (False, r) else (False, s))"

definition exponentOf :: "string \<Rightarrow> int" where
  "exponentOf r =
     (case r of
        [] \<Rightarrow> 0
      | c # r1 \<Rightarrow>
          if c = CHR ''e'' \<or> c = CHR ''E'' then
            (let ds = takeWhile isDigit (snd (takeSign r1))
             in if ds = [] then 0
                else if fst (takeSign r1) then - int (parseDigits ds) else int (parseDigits ds))
          else 0)"

definition refParseFloat :: "string \<Rightarrow> jsnum" where
  "refParseFloat s =
     (let t = dropWhile isSpace s; neg = fst (takeSign t); u = snd (takeSign t)
      in if prefix ''Infinity'' u then Infinity neg
         else
           let ip = takeWhile isDigit u;
               r1 = dropWhile isDigit u;
               hasDot = (r1 \<noteq> [] \<and> hd r1 = CHR ''.'');
               fp = (if hasDot then takeWhile isDigit (tl r1) else []);
               r2 = (if hasDot then dropWhile isDigit (tl r1) else r1)
           in if ip = [] \<and> fp = [] then NaN
              else
                let mant = real (parseDigits ip) + real (parseDigits fp) / 10 ^ length fp;
                    ex = exponentOf r2;
                    mag = (if ex \<ge> 0 then mant * 10 ^ nat ex else mant / 10 ^ nat (- ex))
                in Num (if neg then - mag else mag))"

definition hexValue :: "char \<Rightarrow> nat" where
  "hexValue c = length (takeWhile (\<lambda>d. d \<noteq> lowerChar c) ''0123456789abcdef'')"

definition isHexDigit :: "char \<Rightarrow> bool" where
  "isHexDigit c = (lowerChar c \<in> set ''0123456789abcdef'')"

definition refParseInt :: "string \<Rightarrow> jsnum" where
  "refParseInt s =
     (let t = dropWhile isSpace s; neg = fst (takeSign t); u = snd (takeSign t)
      in if prefix ''0x'' u \<or> prefix ''0X'' u then
           (let ds = takeWhile isHexDigit (drop 2 u);
                n = foldl (\<lambda>a c. 16 * a + hexValue c) 0 ds
            in if ds = [] then NaN else Num (if neg then - real n else real n))
         else
           (let ds = takeWhile isDigit u
            in if ds = [] then NaN
               else Num (if neg then - real (parseDigits ds) else real (parseDigits ds))))"

definition exampleBuiltins :: builtins where
  "exampleBuiltins =
     \<lparr>JSON_parse = (\<lambda>s. None), parseInt = refParseInt, parseFloat = refParseFloat,
      toNumberIsNaN = (\<lambda>h v. True)\<rparr>"

section \<open>Running the merge on JSON drafts\<close>

text \<open>
  The two arguments as the callers obtain them, from stored or parsed JSON: both drafts
  are allocated in an empty store, the existing draft first.
\<close>

definition storeDrafts :: "json \<Rightarrow> json \<Rightarrow> jsval \<times> jsval \<times> heap" where
  "storeDrafts a b =
     (case alloc_json a [] of (e, h1) \<Rightarrow> (case alloc_json b h1 of (u, h2) \<Rightarrow> (e, u, h2)))"

definition runNormalize :: "builtins \<Rightarrow> json \<Rightarrow> json \<Rightarrow> js_error + jsval \<times> heap" where
  "runNormalize env a b = (case storeDrafts a b of (e, u, h) \<Rightarrow> normalizeRfpDraft env h e u)"

text \<open>\<open>v.k1.k2...\<close> read from a store.\<close>

fun getPath :: "heap \<Rightarrow> jsval \<Rightarrow> string list \<Rightarrow> jsval" where
  "getPath h v [] = v"
| "getPath h v (k # ks) = getPath h (getProp h v k) ks"

text \<open>A path of the returned draft; \<open>None\<close> when the call throws.\<close>

definition resultPath :: "js_error + jsval \<times> heap \<Rightarrow> string list \<Rightarrow> jsval option" where
  "resultPath r ks = (case r of Inl e \<Rightarrow> None | Inr (v, h) \<Rightarrow> Some (getPath h v ks))"

text \<open>The names of the returned draft's requirement items, in order.\<close>

definition resultItemNames :: "js_error + jsval \<times> heap \<Rightarrow> jsval list option" where
  "resultItemNames r =
     (case r of
        Inl e \<Rightarrow> None
      | Inr (v, h) \<Rightarrow>
          (case iterate h (getPath h v [''requirements'', ''items'']) of
             Inl e \<Rightarrow> None
           | Inr es \<Rightarrow> Some (map (\<lambda>i. getProp h i ''name'') es)))"

text \<open>A path of the fragment argument, before the call and after it.\<close>

definition fragmentPathBefore :: "json \<Rightarrow> json \<Rightarrow> string list \<Rightarrow> jsval" where
  "fragmentPathBefore a b ks = (case storeDrafts a b of (e, u, h) \<Rightarrow> getPath h u ks)"

definition fragmentPathAfter :: "builtins \<Rightarrow> json \<Rightarrow> json \<Rightarrow> string list \<Rightarrow> jsval option" where
  "fragmentPathAfter env a b ks =
     (case storeDrafts a b of
        (e, u, h) \<Rightarrow>
          (case normalizeRfpDraft env h e u of
             Inl err \<Rightarrow> None
           | Inr (m, h') \<Rightarrow> Some (getPath h' u ks)))"

definition itemsDraft :: "string \<Rightarrow> json" where
  "itemsDraft n =
     JsonObj [(''requirements'', JsonObj [(''items'', JsonArr [JsonObj [(''name'', JsonStr n)]])])]"


definition legacyFragment :: json where
  "legacyFragment =
     JsonObj [(''items'', JsonArr [JsonObj [(''name'', JsonStr ''Chair'')]]),
              (''requirements'', JsonObj [(''deliveryDays'', JsonNum 5)])]"

section \<open>Deduplication as the specification words it\<close>

text \<open>
  "Deduplicate by key, keeping the first occurrence": walk the list once, remember the
  keys seen so far, and drop every element whose key was seen before. The merge's filter
  is compared with this function.
\<close>

fun keepFirst :: "('a \<Rightarrow> 'k) \<Rightarrow> 'k list \<Rightarrow> 'a list \<Rightarrow> 'a list" where
  "keepFirst key seen [] = []"
| "keepFirst key seen (x # xs) =
     (if key x \<in> set seen then keepFirst key seen xs
      else x # keepFirst key (key x # seen) xs)"


section \<open>Rounding and score ranges\<close>



lemma Math_round_of_int [simp]: "Math_round (real_of_int k) = k"
  unfolding Math_round_def by linarith














section \<open>The overall score\<close>





lemma exampleProposal_overallScore:
  "ev_overallScore (evaluateProposal exampleProposal exampleRfp) = 71"
  by code_simp

section \<open>The delivery criterion\<close>

text \<open>
  Claim C7. A proposal whose delivery days are absent scores 0 on delivery, whatever the
  RFP requires, also when the RFP has no delivery requirement: the scorer returns 0 for
  an absent estimate before it looks at the requirement, and so does the evaluator for
  every proposal whose resolved delivery days are absent.
\<close>

theorem delivery_missing_scores_zero:
  "dl_score (evaluateDelivery None requiredDeliveryDays) = 0
   \<and> (pd_deliveryDays (proposalData p) = None
        \<longrightarrow> dl_score (c_delivery (ev_criteria (evaluateProposal p r))) = 0)"
  by (simp add: evaluateDelivery_def falsyInt_def evaluateProposal_def evaluateCriteria_def Let_def)

theorem delivery_missing_scores_zero_witness:
  "pd_deliveryDays (proposalData exampleProposal) = None
   \<and> rr_deliveryDays (rfp_requirements exampleRfp) = None
   \<and> dl_score (c_delivery (ev_criteria (evaluateProposal exampleProposal exampleRfp))) = 0"
proof -
  have h: "pd_deliveryDays (proposalData exampleProposal) = None"
    by (simp add: proposalData_def exampleProposal_def nullish_def Let_def emptyParsedData_def)
  have r: "rr_deliveryDays (rfp_requirements exampleRfp) = None"
    by (simp add: exampleRfp_def)
  from delivery_missing_scores_zero[of None exampleProposal exampleRfp] h r
  show ?thesis by blast
qed

section \<open>The price criterion\<close>








text \<open>
  Claim C9. The claim reads \<open>matchesBudget\<close> as "absolute deviation at most 10 percent".
  The scorer compares the signed deviation with 10, so a price far under budget is
  flagged as matching: at price 5000 against budget 10000 the deviation is -50 percent,
  its magnitude is 50, and \<open>matchesBudget\<close> is true.
\<close>

theorem matchesBudget_far_under_budget:
  "pr_matchesBudget (evaluatePrice (Some 5000) (Some 10000)) = True
   \<and> pr_deviation (evaluatePrice (Some 5000) (Some 10000)) = - 50
   \<and> \<not> \<bar>pr_deviation (evaluatePrice (Some 5000) (Some 10000))\<bar> \<le> 10"
  by (simp add: evaluatePrice_def falsyNum_def Let_def Math_round_def)

section \<open>Item matching\<close>

text \<open>
  Claim C10, as stated, fails: a required item with a required quantity, no structured
  line items at all, found only in the free text, is counted as matched although the
  proposal supplies no quantity.
\<close>

theorem fuzzy_quantity_counterexample:
  "rq_itemsMatched
     (matchItems [\<lparr>ri_name = ''Laptop'', ri_quantity = Some 20, ri_specifications = None\<rparr>]
        None (Some ''We can supply laptop computers'') None) = 1
   \<and> map ib_proposedQuantity
       (rq_itemBreakdown
          (matchItems [\<lparr>ri_name = ''Laptop'', ri_quantity = Some 20, ri_specifications = None\<rparr>]
             None (Some ''We can supply laptop computers'') None)) = [None]"
  by code_simp

text \<open>
  Claim C10, amended. For every required item carrying a required quantity that has no
  structured line-item match and is found by the scan of the proposal text, the quantity
  is taken to match although no proposal quantity is recorded, and the item is counted
  as matched exactly when its specifications match (which holds when it has none).
\<close>

theorem fuzzy_match_assumes_quantity:
  assumes "\<not> falsyInt (ri_quantity rfpItem)"
    and "\<forall>ip \<in> set (case proposalItemPrices of None \<Rightarrow> [] | Some ips \<Rightarrow> ips).
           \<not> (str_includes (toLowerCase (ip_item ip)) (toLowerCase (ri_name rfpItem))
              \<or> str_includes (toLowerCase (ri_name rfpItem)) (toLowerCase (ip_item ip)))"
    and "str_includes proposalText (toLowerCase (ri_name rfpItem))"
  shows "ib_matchesQuantity (snd (matchItem proposalItemPrices proposalText rfpItem))
       \<and> ib_proposedQuantity (snd (matchItem proposalItemPrices proposalText rfpItem)) = None
       \<and> (fst (matchItem proposalItemPrices proposalText rfpItem)
            \<longleftrightarrow> ib_specificationsMatch (snd (matchItem proposalItemPrices proposalText rfpItem)))"
proof -
  have nf: "(case proposalItemPrices of
               None \<Rightarrow> None
             | Some ips \<Rightarrow>
                 List.find
                   (\<lambda>ip. str_includes (toLowerCase (ip_item ip)) (toLowerCase (ri_name rfpItem)) \<or>
                         str_includes (toLowerCase (ri_name rfpItem)) (toLowerCase (ip_item ip)))
                   ips) = None"
    using assms(2) by (cases proposalItemPrices) (auto simp: find_None_iff)
  show ?thesis
    using assms(1,3) by (simp add: matchItem_def Let_def nf)
qed

theorem fuzzy_match_assumes_quantity_witness:
  "\<not> falsyInt (ri_quantity laptopItem)
   \<and> str_includes (toLowerCase ''We can supply laptop computers'') (toLowerCase (ri_name laptopItem))
   \<and> ib_matchesQuantity
       (snd (matchItem None (toLowerCase ''We can supply laptop computers'') laptopItem))
   \<and> fst (matchItem None (toLowerCase ''We can supply laptop computers'') laptopItem)"
proof -
  have a: "\<not> falsyInt (ri_quantity laptopItem)"
    by (simp add: laptopItem_def falsyInt_def)
  have b: "\<forall>ip \<in> set (case (None :: item_price list option) of None \<Rightarrow> [] | Some ips \<Rightarrow> ips).
           \<not> (str_includes (toLowerCase (ip_item ip)) (toLowerCase (ri_name laptopItem))
              \<or> str_includes (toLowerCase (ri_name laptopItem)) (toLowerCase (ip_item ip)))"
    by simp
  have c: "str_includes (toLowerCase ''We can supply laptop computers'')
             (toLowerCase (ri_name laptopItem))"
    by code_simp
  have d: "ib_specificationsMatch
             (snd (matchItem None (toLowerCase ''We can supply laptop computers'') laptopItem))"
    by (simp add: matchItem_def Let_def laptopItem_def falsyStr_def)
  from fuzzy_match_assumes_quantity[OF a b c] a c d show ?thesis by blast
qed

section \<open>The comparison cache\<close>

lemma latest_fold_bound:
  "(case foldl latestStep acc ps of None \<Rightarrow> True | Some l \<Rightarrow> l \<le> t)
   \<longleftrightarrow> (case acc of None \<Rightarrow> True | Some a \<Rightarrow> a \<le> t)
       \<and> (\<forall>p \<in> set ps. \<forall>u. row_updatedAt p = Some u \<longrightarrow> u \<le> t)"
proof (induction ps arbitrary: acc)
  case Nil
  then show ?case by simp
next
  case (Cons p ps)
  show ?case
    unfolding foldl_Cons Cons.IH
    by (auto simp: latestStep_def Let_def split: option.splits)
qed

text \<open>
  Claim C6. A cached comparison is valid exactly when the number of cached evaluations
  (0 when the array is missing) equals the number of current proposals and the cache
  time stamp is at or after the \<open>updatedAt\<close> of every proposal that has one; a cache
  valid for a list of proposals is invalid for that list with one more proposal.
\<close>

theorem cacheIsValid_iff:
  "(cacheIsValid c t ps \<longleftrightarrow>
      (case cmp_evaluations c of None \<Rightarrow> 0 | Some es \<Rightarrow> length es) = length ps
      \<and> (\<forall>p \<in> set ps. \<forall>u. row_updatedAt p = Some u \<longrightarrow> u \<le> t))
   \<and> (cacheIsValid c t ps \<longrightarrow> \<not> cacheIsValid c t (ps @ [p]))"
  using latest_fold_bound[where acc = None and ps = ps and t = t]
  by (simp add: cacheIsValid_def Let_def lastProposalUpdate_def)

theorem cacheIsValid_iff_witness:
  "cacheIsValid \<lparr>cmp_evaluations = Some [''a'', ''b'']\<rparr> 100
     [\<lparr>row_updatedAt = Some 50\<rparr>, \<lparr>row_updatedAt = None\<rparr>]
   \<and> \<not> cacheIsValid \<lparr>cmp_evaluations = Some [''a'', ''b'']\<rparr> 100
         ([\<lparr>row_updatedAt = Some 50\<rparr>, \<lparr>row_updatedAt = None\<rparr>] @ [\<lparr>row_updatedAt = Some 60\<rparr>])"
  using cacheIsValid_iff[of "\<lparr>cmp_evaluations = Some [''a'', ''b'']\<rparr>" 100
      "[\<lparr>row_updatedAt = Some 50\<rparr>, \<lparr>row_updatedAt = None\<rparr>]" "\<lparr>row_updatedAt = Some 60\<rparr>"]
  by simp


section \<open>Lemmas about the store\<close>

subsection \<open>Reading after allocation and after writes\<close>

lemma length_setOwn [simp]: "length (setOwn h a k x) = length h"
  by (simp add: setOwn_def)

lemma length_deleteOwn [simp]: "length (deleteOwn h a k) = length h"
  by (simp add: deleteOwn_def)

lemma cellAt_append:
  "cellAt (h @ [c]) a = (if a = length h then c else cellAt h a)"
  by (simp add: cellAt_def nth_append)

lemma cellAt_setOwn:
  "cellAt (setOwn h a k x) b =
     (if b = a \<and> a < length h then
        (case cellAt h a of Obj m \<Rightarrow> Obj (m(k \<mapsto> x)) | Arr es ps \<Rightarrow> Arr es (ps(k \<mapsto> x)))
      else cellAt h b)"
  by (simp add: setOwn_def cellAt_def)

lemma cellAt_deleteOwn:
  "cellAt (deleteOwn h a k) b =
     (if b = a \<and> a < length h then
        (case cellAt h a of Obj m \<Rightarrow> Obj (m(k := None)) | Arr es ps \<Rightarrow> Arr es (ps(k := None)))
      else cellAt h b)"
  by (simp add: deleteOwn_def cellAt_def)

lemma cellAt_single [simp]: "cellAt [c] 0 = c"
  by (simp add: cellAt_def)


lemma getProp_append:
  "getProp (h @ [c]) v k = (if v = JRef (length h) then getProp [c] (JRef 0) k else getProp h v k)"
  by (cases v) (simp_all add: getProp_def cellAt_append cellAt_single)



lemma iterate_append:
  "iterate (h @ [c]) v = (if v = JRef (length h) then iterate [c] (JRef 0) else iterate h v)"
  by (cases v) (simp_all add: iterate_def cellAt_append)

lemma iterate_setOwn [simp]: "iterate (setOwn h a k x) v = iterate h v"
  by (cases v) (auto simp: iterate_def cellAt_setOwn split: cell.splits)

lemma iterate_deleteOwn [simp]: "iterate (deleteOwn h a k) v = iterate h v"
  by (cases v) (auto simp: iterate_def cellAt_deleteOwn split: cell.splits)

lemma isArray_append:
  "isArray (h @ [c]) v = (if v = JRef (length h) then isArray [c] (JRef 0) else isArray h v)"
  by (cases v) (simp_all add: isArray_def cellAt_append)

lemma isArray_setOwn [simp]: "isArray (setOwn h a k x) v = isArray h v"
  by (cases v) (auto simp: isArray_def cellAt_setOwn split: cell.splits)

lemma isArray_deleteOwn [simp]: "isArray (deleteOwn h a k) v = isArray h v"
  by (cases v) (auto simp: isArray_def cellAt_deleteOwn split: cell.splits)

lemma optChain_simps:
  "optChain h JUndefined k = JUndefined"
  "optChain h JNull k = JUndefined"
  "optChain h (JRef a) k = getProp h (JRef a) k"
  by (simp_all add: optChain_def)

lemma ownEntries_append:
  "ownEntries (h @ [c]) v = (if v = JRef (length h) then ownEntries [c] (JRef 0) else ownEntries h v)"
  by (cases v) (simp_all add: ownEntries_def cellAt_append)

lemma ownEntries_setOwn:
  "ownEntries (setOwn h a k x) v =
     (if v = JRef a \<and> a < length h then (ownEntries h v)(k \<mapsto> x) else ownEntries h v)"
  by (cases v) (auto simp: ownEntries_def cellAt_setOwn split: cell.splits)

lemma validIn_simps [simp]:
  "validIn h JUndefined" "validIn h JNull" "validIn h (JBool b)" "validIn h (JNumber n)"
  "validIn h (JStr s)" "validIn h (JRef a) = (a < length h)"
  by (simp_all add: validIn_def)


subsection \<open>The filter of the merge keeps first occurrences\<close>







lemma strictEq_NaN [simp]: "strictEq a (JNumber NaN) = False"
  by (auto simp: strictEq_def)





lemma keepFirst_subset: "set (keepFirst key seen xs) \<subseteq> set xs"
  by (induction xs arbitrary: seen) auto


lemma filter_keepFirst:
  "(\<forall>x \<in> set xs. P x) \<Longrightarrow> filter P (keepFirst key seen xs) = keepFirst key seen xs"
  using keepFirst_subset[of key seen xs] by (auto simp: filter_id_conv)





subsection \<open>Closed stores\<close>





lemma cellClosed_empty [simp]: "cellClosed h (Obj Map.empty)" "cellClosed h (Arr [] Map.empty)"
  by (simp_all add: cellClosed_def)

lemma closed_cellAt: "closedStore h \<Longrightarrow> cellClosed h (cellAt h a)"
  by (auto simp: closedStore_def cellAt_def)






lemma valid_getProp: "closedStore h \<Longrightarrow> validIn h (getProp h v k)"
proof (cases v)
  case (JRef a)
  assume "closedStore h"
  then have "cellClosed h (cellAt h a)" by (rule closed_cellAt)
  then show ?thesis using JRef
    by (auto simp: getProp_def cellClosed_def ran_def split: cell.splits option.splits)
qed (simp_all add: getProp_def)

lemma valid_optChain: "closedStore h \<Longrightarrow> validIn h (optChain h v k)"
  by (simp add: optChain_def valid_getProp)























subsection \<open>Reading through an extension of the store\<close>

lemma cellAt_append_gen:
  "cellAt (h @ ext) a = (if a < length h then cellAt h a else cellAt ext (a - length h))"
  by (auto simp: cellAt_def nth_append)





lemma ownEntries_extend: "validIn h v \<Longrightarrow> ownEntries (h @ ext) v = ownEntries h v"
  by (cases v) (simp_all add: ownEntries_def cellAt_append_gen)


subsection \<open>The shape of a merged draft\<close>






subsection \<open>Drafts without legacy fields\<close>





subsection \<open>Rebuilt containers unfold to the same tree\<close>

lemma tree_of_prims [simp]:
  "tree_of n h JUndefined = TUndefined" "tree_of n h JNull = TNull"
  "tree_of n h (JBool b) = TBool b" "tree_of n h (JNumber x) = TNumber x"
  "tree_of n h (JStr s) = TStr s"
  by (cases n; simp)+




subsection \<open>Merging an empty fragment into a merged draft\<close>

lemma itemsOrEmpty_undefined [simp]: "itemsOrEmpty h JUndefined = Inr []"
  by (simp add: itemsOrEmpty_def optChain_def truthy_def)


subsection \<open>The stages of normalizeRfpDraft\<close>



subsection \<open>Budget and deadline touch only the update copy\<close>

lemma normalizeBudget_forms:
  "normalizeBudget env h u = h \<or> normalizeBudget env h u = deleteOwn h u ''budget''
   \<or> (\<exists>x. validIn h x \<and> normalizeBudget env h u = setOwn h u ''budget'' x)"
proof -
  let ?b = "getProp h (JRef u) ''budget''"
  consider "?b = JStr [] \<or> ?b = JNull" | "\<not> (?b = JStr [] \<or> ?b = JNull)" "typeofString ?b"
    | "\<not> (?b = JStr [] \<or> ?b = JNull)" "\<not> typeofString ?b" by blast
  then show ?thesis
  proof cases
    case 1
    then show ?thesis by (simp add: normalizeBudget_def Let_def)
  next
    case 2
    let ?x = "if parseFloat env (stringOf ?b) = NaN then JUndefined else JNumber (parseFloat env (stringOf ?b))"
    have "normalizeBudget env h u = setOwn h u ''budget'' ?x"
      using 2 by (simp add: normalizeBudget_def Let_def)
    moreover have "validIn h ?x" by simp
    ultimately show ?thesis by blast
  next
    case 3
    then show ?thesis by (simp add: normalizeBudget_def Let_def)
  qed
qed

lemma normalizeDeadline_forms:
  "normalizeDeadline h u = h \<or> normalizeDeadline h u = deleteOwn h u ''deadline''"
  by (simp add: normalizeDeadline_def Let_def)



lemma normalizeBudget_iterate [simp]: "iterate (normalizeBudget env h u) v = iterate h v"
  using normalizeBudget_forms[of env h u] by (elim disjE exE conjE) simp_all

lemma normalizeDeadline_iterate [simp]: "iterate (normalizeDeadline h u) v = iterate h v"
  using normalizeDeadline_forms[of h u] by (elim disjE) simp_all

lemma normalizeBudget_cellAt:
  "a \<noteq> u \<Longrightarrow> cellAt (normalizeBudget env h u) a = cellAt h a"
  using normalizeBudget_forms[of env h u]
  by (elim disjE exE conjE) (simp_all add: cellAt_setOwn cellAt_deleteOwn)

lemma normalizeDeadline_cellAt:
  "a \<noteq> u \<Longrightarrow> cellAt (normalizeDeadline h u) a = cellAt h a"
  using normalizeDeadline_forms[of h u]
  by (elim disjE) (simp_all add: cellAt_deleteOwn)


lemma budget_deadline_ownEntries:
  assumes "v \<noteq> JRef u"
  shows "ownEntries (normalizeDeadline (normalizeBudget env h0 u) u) v = ownEntries h0 v"
proof (cases v)
  case (JRef a)
  with assms have "a \<noteq> u" by simp
  then have "cellAt (normalizeDeadline (normalizeBudget env h0 u) u) a = cellAt h0 a"
    by (simp add: normalizeDeadline_cellAt normalizeBudget_cellAt)
  then show ?thesis using JRef by (simp add: ownEntries_def)
qed (simp_all add: ownEntries_def)






subsection \<open>Stored example drafts\<close>




section \<open>Deduplication in the draft merge\<close>




lemma laptop_merge_example:
  "resultItemNames (runNormalize exampleBuiltins (itemsDraft ''Laptop'') (itemsDraft ''Laptop''))
     = Some [JStr ''Laptop'']
   \<and> resultPath (runNormalize exampleBuiltins (itemsDraft ''Laptop'') (itemsDraft ''Laptop''))
        [''requirements'', ''items''] = Some (JRef 10)"
  by code_simp

section \<open>The arguments after the merge\<close>

text \<open>
  Claim C3. The fragment \<open>{items: [{name: "Chair"}], requirements: {deliveryDays: 5}}\<close>
  is copied only one level deep, so folding its top-level \<open>items\<close> into
  \<open>update.requirements\<close> writes to the requirements object of the argument itself:
  before the call the argument has no \<open>requirements.items\<close>, after it the argument's
  \<open>requirements.items\<close> is its own items array.
\<close>

theorem fragment_requirements_mutated:
  "fragmentPathBefore (JsonObj []) legacyFragment [''requirements'', ''items''] = JUndefined
   \<and> fragmentPathBefore (JsonObj []) legacyFragment [''items''] = JRef 2
   \<and> fragmentPathAfter exampleBuiltins (JsonObj []) legacyFragment [''requirements'', ''items'']
       = Some (JRef 2)"
  by code_simp

section \<open>The merged budget\<close>

text \<open>
  Claim C4. An empty-string or null budget is deleted from the update, and the merged
  budget is the existing one; a non-numeric string is replaced by \<open>undefined\<close> but the
  key stays in the update, so the spread overwrites the existing budget with
  \<open>undefined\<close>.
\<close>

theorem non_numeric_budget_overwrites:
  "resultPath (runNormalize exampleBuiltins (JsonObj [(''budget'', JsonNum 5000)])
                 (JsonObj [(''budget'', JsonStr ''abc'')])) [''budget'']
     = Some JUndefined
   \<and> resultPath (runNormalize exampleBuiltins (JsonObj [(''budget'', JsonNum 5000)])
                 (JsonObj [(''budget'', JsonStr '''')])) [''budget'']
     = Some (JNumber (Num 5000))
   \<and> resultPath (runNormalize exampleBuiltins (JsonObj [(''budget'', JsonNum 5000)])
                 (JsonObj [(''budget'', JsonNull)])) [''budget'']
     = Some (JNumber (Num 5000))"
  by code_simp

section \<open>Merging an empty fragment\<close>



end
